theory Spec2Isabelle
  imports Main "HOL-Library.Word"
begin

section \<open>Power management of the ESP32 gateway\<close>

text \<open>
  A shallow embedding of \<^verbatim>\<open>src/edge/esp32/src/low_power_mode.cpp\<close>. The module keeps
  its state in file-level variables: the retained record \<^verbatim>\<open>rtc_state\<close> (RTC memory),
  the configuration \<^verbatim>\<open>config\<close>, and the volatile variables \<^verbatim>\<open>current_mode\<close>,
  \<^verbatim>\<open>last_activity_time\<close> and \<^verbatim>\<open>initialized\<close>. Here they are the fields of one
  state record that every operation takes and returns. Calls into the platform (ESP-IDF,
  Arduino) are appended to a trace kept in the state, in the order the source makes them.
\<close>

subsection \<open>Machine types\<close>

type_synonym u8 = "8 word"
type_synonym u32 = "32 word"

text \<open>
  A C \<^verbatim>\<open>float\<close> is kept as its IEEE 754 binary32 bit pattern. The source only stores
  floats and compares them with \<^verbatim>\<open><\<close>; the comparison is decoded from the bits:
  a NaN compares false with everything, and otherwise the values are ordered.
  \<open>f32_scaled\<close> is the represented value multiplied by \<open>2 ^ 149\<close>, an integer for
  every finite float; an infinity decodes to \<open>\<plusminus> 2 ^ 277\<close>, beyond every finite value.
\<close>

type_synonym f32 = "32 word"

definition f32_sign :: "f32 \<Rightarrow> bool" where
  "f32_sign x = (2 ^ 31 \<le> unat x)"

definition f32_exponent :: "f32 \<Rightarrow> nat" where
  "f32_exponent x = (unat x div 2 ^ 23) mod 256"

definition f32_mantissa :: "f32 \<Rightarrow> nat" where
  "f32_mantissa x = unat x mod 2 ^ 23"

definition f32_is_nan :: "f32 \<Rightarrow> bool" where
  "f32_is_nan x = (f32_exponent x = 255 \<and> f32_mantissa x \<noteq> 0)"

definition f32_scaled :: "f32 \<Rightarrow> int" where
  "f32_scaled x =
     (let mag = (if f32_exponent x = 0 then int (f32_mantissa x)
                 else int ((2 ^ 23 + f32_mantissa x) * 2 ^ (f32_exponent x - 1)))
      in if f32_sign x then - mag else mag)"

definition f32_less :: "f32 \<Rightarrow> f32 \<Rightarrow> bool" where
  "f32_less a b = (\<not> f32_is_nan a \<and> \<not> f32_is_nan b \<and> f32_scaled a < f32_scaled b)"

subsection \<open>Data model\<close>

datatype power_mode_t =
    POWER_MODE_ACTIVE
  | POWER_MODE_MODEM_SLEEP
  | POWER_MODE_LIGHT_SLEEP
  | POWER_MODE_DEEP_SLEEP
  | POWER_MODE_HIBERNATION

text \<open>The enumerators' values, used where the source compares modes or stores one.\<close>

fun power_mode_val :: "power_mode_t \<Rightarrow> nat" where
  "power_mode_val POWER_MODE_ACTIVE = 0"
| "power_mode_val POWER_MODE_MODEM_SLEEP = 1"
| "power_mode_val POWER_MODE_LIGHT_SLEEP = 2"
| "power_mode_val POWER_MODE_DEEP_SLEEP = 3"
| "power_mode_val POWER_MODE_HIBERNATION = 4"

text \<open>
  The retained record \<^verbatim>\<open>rtc_state\<close>. After a wake-up its memory may hold anything, so
  every field is the raw machine value: the mode as the 32-bit enumerator value, the flag
  as its byte, the float as its bits. The array \<^verbatim>\<open>uint8_t telemetry_buffer[256]\<close> is a
  function from the index, a byte, to the element. The two bytes the compiler inserts before the
  4-aligned \<^verbatim>\<open>checksum\<close> are fields too, since \<^verbatim>\<open>memset\<close> and the checksum loop
  reach them. The field \<^verbatim>\<open>current_mode\<close> of the struct is named \<open>rtc_current_mode\<close>
  to keep it apart from the file-level variable of the same name.
\<close>

record rtc_state_t =
  rtc_current_mode :: u32
  sleep_duration_ms :: u32
  wake_count :: u32
  last_active_time :: u32
  battery_voltage :: f32
  critical_alert_pending :: u8
  telemetry_buffer :: "u8 \<Rightarrow> u8"
  buffer_index :: u8
  padding_278 :: u8
  padding_279 :: u8
  checksum :: u32

definition TELEMETRY_BUFFER_SIZE :: nat where
  "TELEMETRY_BUFFER_SIZE = 256"

text \<open>\<^verbatim>\<open>offsetof(typeof(rtc_state), checksum)\<close>: 5 words, the flag, the buffer, the
  cursor and two bytes of padding.\<close>

definition CHECKSUM_OFFSET :: nat where
  "CHECKSUM_OFFSET = 280"

text \<open>The bytes of a 32-bit value in memory (the ESP32 is little-endian).\<close>

definition le32 :: "u32 \<Rightarrow> u8 list" where
  "le32 w = [ucast w, ucast (drop_bit 8 w), ucast (drop_bit 16 w), ucast (drop_bit 24 w)]"

text \<open>The record as \<^verbatim>\<open>(uint8_t*)&rtc_state\<close> reads it.\<close>

definition rtc_bytes :: "rtc_state_t \<Rightarrow> u8 list" where
  "rtc_bytes r =
     le32 (rtc_current_mode r) @ le32 (sleep_duration_ms r) @ le32 (wake_count r)
     @ le32 (last_active_time r) @ le32 (battery_voltage r)
     @ [critical_alert_pending r]
     @ map (\<lambda>k. telemetry_buffer r (of_nat k)) [0 ..< TELEMETRY_BUFFER_SIZE]
     @ [buffer_index r]
     @ [padding_278 r, padding_279 r] @ le32 (checksum r)"

text \<open>\<^verbatim>\<open>memset(&rtc_state, 0, sizeof(rtc_state))\<close>\<close>

definition rtc_zeroed :: rtc_state_t where
  "rtc_zeroed =
     \<lparr>rtc_current_mode = 0, sleep_duration_ms = 0, wake_count = 0, last_active_time = 0,
      battery_voltage = 0, critical_alert_pending = 0,
      telemetry_buffer = (\<lambda>k. 0), buffer_index = 0,
      padding_278 = 0, padding_279 = 0, checksum = 0\<rparr>"

record power_config_t =
  battery_critical_v :: f32
  battery_low_v :: f32
  battery_ok_v :: f32
  idle_timeout_ms :: u32
  deep_sleep_timeout_ms :: u32
  telemetry_interval_ms :: u32
  heartbeat_interval_ms :: u32
  wake_pin :: int
  alert_pin :: int
  enable_ulp :: bool
  enable_wifi_modem_sleep :: bool
  enable_auto_light_sleep :: bool

text \<open>The default configuration; 3.0, 3.3 and 3.7 as binary32.\<close>

definition default_config :: power_config_t where
  "default_config =
     \<lparr>battery_critical_v = 0x40400000, battery_low_v = 0x40533333,
      battery_ok_v = 0x406CCCCD,
      idle_timeout_ms = 30000, deep_sleep_timeout_ms = 300000,
      telemetry_interval_ms = 60000, heartbeat_interval_ms = 300000,
      wake_pin = 33, alert_pin = 32,
      enable_ulp = True, enable_wifi_modem_sleep = True, enable_auto_light_sleep = True\<rparr>"

subsection \<open>The platform\<close>

text \<open>
  \<^verbatim>\<open>esp_sleep_wakeup_cause_t\<close> is declared by ESP-IDF (\<^verbatim>\<open>esp_sleep.h\<close>), not by this
  repository; these are its enumerators for the ESP32, of which the source names seven.
\<close>

datatype esp_sleep_wakeup_cause_t =
    ESP_SLEEP_WAKEUP_UNDEFINED
  | ESP_SLEEP_WAKEUP_ALL
  | ESP_SLEEP_WAKEUP_EXT0
  | ESP_SLEEP_WAKEUP_EXT1
  | ESP_SLEEP_WAKEUP_TIMER
  | ESP_SLEEP_WAKEUP_TOUCHPAD
  | ESP_SLEEP_WAKEUP_ULP
  | ESP_SLEEP_WAKEUP_GPIO
  | ESP_SLEEP_WAKEUP_UART

datatype wifi_ps_type_t = WIFI_PS_NONE | WIFI_PS_MIN_MODEM | WIFI_PS_MAX_MODEM

text \<open>The platform calls the module makes, with the arguments that vary.\<close>

datatype platform_call =
    Serial_print
  | Serial_flush
  | Esp_pm_configure nat nat bool
  | Adc_power_release
  | Rtc_gpio_init int
  | Rtc_gpio_set_direction_input_only int
  | Rtc_gpio_pullup_en int
  | Ulp_process_macros_and_load int
  | Ulp_set_wakeup_period nat nat
  | Uart_driver_install
  | Uart_driver_delete
  | Gpio_set_direction_input int
  | Gpio_pulldown_en int
  | Esp_wifi_set_ps wifi_ps_type_t
  | Esp_wifi_stop
  | Esp_bt_controller_disable
  | Esp_sleep_enable_timer_wakeup u32
  | Esp_sleep_enable_ext0_wakeup int nat
  | Esp_sleep_enable_ulp_wakeup
  | Esp_sleep_disable_wakeup_source_all
  | Rtc_gpio_isolate int
  | Adc1_config_width
  | Adc1_config_channel_atten
  | Adc1_get_raw
  | Esp_light_sleep_start
  | Esp_deep_sleep_start

text \<open>
  What the platform answers. \<open>millis_seq env n\<close> is the value of the \<open>n\<close>-th call of
  \<^verbatim>\<open>millis()\<close> and \<open>adc_raw_seq env n\<close> the \<open>n\<close>-th ADC sample; \<open>adc_to_voltage\<close> is
  the float arithmetic \<^verbatim>\<open>(raw / 4096.0) * 3.3 * 2.0\<close> of \<^verbatim>\<open>read_battery_voltage\<close>.
  \<open>GPIO_NUM_MAX\<close> and \<open>rtc_gpio_is_valid_gpio\<close> are ESP-IDF's.
\<close>

record esp32_env =
  wakeup_cause :: esp_sleep_wakeup_cause_t
  millis_seq :: "nat \<Rightarrow> u32"
  adc_raw_seq :: "nat \<Rightarrow> int"
  adc_to_voltage :: "int \<Rightarrow> f32"
  GPIO_NUM_MAX :: nat
  rtc_gpio_is_valid_gpio :: "int \<Rightarrow> bool"

text \<open>The module's variables, the number of clock and ADC reads made so far, and the
  trace of platform calls.\<close>

record pm_state =
  config :: power_config_t
  rtc_state :: rtc_state_t
  current_mode :: power_mode_t
  last_activity_time :: u32
  initialized :: bool
  millis_calls :: nat
  adc_reads :: nat
  trace :: "platform_call list"

text \<open>
  A call either returns to its caller, with a value and the state, or ends in
  \<^verbatim>\<open>esp_deep_sleep_start()\<close>, which never returns: then the state is the one in which
  the processor was suspended.
\<close>

datatype 'a outcome = Returns 'a pm_state | Suspended pm_state

fun final_state :: "'a outcome \<Rightarrow> pm_state" where
  "final_state (Returns v s) = s"
| "final_state (Suspended s) = s"

fun is_suspended :: "'a outcome \<Rightarrow> bool" where
  "is_suspended (Returns v s) = False"
| "is_suspended (Suspended s) = True"

definition call :: "platform_call \<Rightarrow> pm_state \<Rightarrow> pm_state" where
  "call c s = s\<lparr>trace := trace s @ [c]\<rparr>"

text \<open>Statements in sequence.\<close>

fun steps :: "(pm_state \<Rightarrow> pm_state) list \<Rightarrow> pm_state \<Rightarrow> pm_state" where
  "steps [] s = s"
| "steps (f # fs) s = steps fs (f s)"

definition millis :: "esp32_env \<Rightarrow> pm_state \<Rightarrow> u32 \<times> pm_state" where
  "millis env s = (millis_seq env (millis_calls s), s\<lparr>millis_calls := Suc (millis_calls s)\<rparr>)"

subsection \<open>Private functions\<close>

text \<open>
  \<^verbatim>\<open>calculate_checksum\<close>: the loop \<^verbatim>\<open>for (i = 0; i < offsetof(.., checksum); i++)
  sum += ptr[i]\<close> over the bytes of the record, in 32-bit unsigned arithmetic.
\<close>

fun sum_bytes :: "u8 list \<Rightarrow> u32 \<Rightarrow> u32" where
  "sum_bytes [] acc = acc"
| "sum_bytes (b # bs) acc = sum_bytes bs (acc + ucast b)"

definition checksum_of_bytes :: "u8 list \<Rightarrow> u32" where
  "checksum_of_bytes ptr = sum_bytes (take CHECKSUM_OFFSET ptr) 0"

definition calculate_checksum :: "rtc_state_t \<Rightarrow> u32" where
  "calculate_checksum r = checksum_of_bytes (rtc_bytes r)"

definition unused_pins :: "int list" where
  "unused_pins = [0, 2, 4, 12, 13, 14, 15, 25, 26, 27]"

definition configure_gpio_for_sleep :: "pm_state \<Rightarrow> pm_state" where
  "configure_gpio_for_sleep =
     steps (call Uart_driver_delete
            # concat (map (\<lambda>p. [call (Gpio_set_direction_input p), call (Gpio_pulldown_en p)])
                          unused_pins))"

definition restore_gpio_after_wake :: "pm_state \<Rightarrow> pm_state" where
  "restore_gpio_after_wake = call Uart_driver_install"

definition configure_ulp_program :: "pm_state \<Rightarrow> pm_state" where
  "configure_ulp_program s =
     steps [call (Ulp_process_macros_and_load (alert_pin (config s))),
            call (Ulp_set_wakeup_period 0 100000)] s"

definition read_battery_voltage :: "esp32_env \<Rightarrow> pm_state \<Rightarrow> f32 \<times> pm_state" where
  "read_battery_voltage env s =
     (let s1 = steps [call Adc1_config_width, call Adc1_config_channel_atten] s;
          raw = adc_raw_seq env (adc_reads s1);
          s2 = call Adc1_get_raw (s1\<lparr>adc_reads := Suc (adc_reads s1)\<rparr>)
      in (adc_to_voltage env raw, s2))"

definition send_minimal_telemetry :: "pm_state \<Rightarrow> pm_state" where
  "send_minimal_telemetry = steps [call Serial_print, call Serial_flush]"

subsection \<open>Initialisation\<close>

text \<open>\<open>user_config\<close> is \<open>None\<close> for a null pointer.\<close>

definition power_manager_init ::
  "esp32_env \<Rightarrow> power_config_t option \<Rightarrow> pm_state \<Rightarrow> pm_state" where
  "power_manager_init env user_config s0 =
     (let s1 = (case user_config of None \<Rightarrow> s0 | Some c \<Rightarrow> s0\<lparr>config := c\<rparr>);
          wakeup_reason = wakeup_cause env;
          s2 = (if wakeup_reason \<noteq> ESP_SLEEP_WAKEUP_UNDEFINED then
                  (if calculate_checksum (rtc_state s1) = checksum (rtc_state s1) then
                     call Serial_print
                       (s1\<lparr>rtc_state := (rtc_state s1)\<lparr>wake_count := wake_count (rtc_state s1) + 1\<rparr>\<rparr>)
                   else
                     call Serial_print (s1\<lparr>rtc_state := rtc_zeroed\<rparr>))
                else
                  call Serial_print (s1\<lparr>rtc_state := rtc_zeroed\<rparr>));
          s3 = steps [call (Esp_pm_configure 240 80 (enable_auto_light_sleep (config s2))),
                      call Adc_power_release,
                      call (Rtc_gpio_init (wake_pin (config s2))),
                      call (Rtc_gpio_set_direction_input_only (wake_pin (config s2))),
                      call (Rtc_gpio_pullup_en (wake_pin (config s2)))] s2;
          s4 = (if enable_ulp (config s3) then configure_ulp_program s3 else s3);
          (now, s5) = millis env s4
      in call Serial_print (s5\<lparr>last_activity_time := now, initialized := True\<rparr>))"

subsection \<open>Mode transitions\<close>

text \<open>The entry actions of each \<^verbatim>\<open>case\<close> of \<^verbatim>\<open>power_manager_set_mode\<close>. For the
  modes that suspend the processor, the entry function ends where the suspend call is
  made.\<close>

definition set_mode_active :: "pm_state \<Rightarrow> pm_state" where
  "set_mode_active s =
     (let s1 = restore_gpio_after_wake s
      in if enable_wifi_modem_sleep (config s1) then call (Esp_wifi_set_ps WIFI_PS_NONE) s1
         else s1)"

definition set_mode_modem_sleep :: "pm_state \<Rightarrow> pm_state" where
  "set_mode_modem_sleep = call (Esp_wifi_set_ps WIFI_PS_MIN_MODEM)"

definition light_sleep_entry :: "pm_state \<Rightarrow> pm_state" where
  "light_sleep_entry s =
     steps [configure_gpio_for_sleep,
            call (Esp_wifi_set_ps WIFI_PS_MAX_MODEM),
            call (Esp_sleep_enable_timer_wakeup (telemetry_interval_ms (config s) * 1000)),
            call (Esp_sleep_enable_ext0_wakeup (wake_pin (config s)) 0),
            call Esp_light_sleep_start] s"

definition light_sleep_resume :: "esp32_env \<Rightarrow> pm_state \<Rightarrow> pm_state" where
  "light_sleep_resume env s =
     (let s1 = restore_gpio_after_wake s;
          (now, s2) = millis env s1
      in s2\<lparr>last_activity_time := now\<rparr>)"

definition deep_sleep_entry :: "esp32_env \<Rightarrow> pm_state \<Rightarrow> pm_state" where
  "deep_sleep_entry env s0 =
     (let s1 = s0\<lparr>rtc_state := (rtc_state s0)
                 \<lparr>rtc_current_mode := of_nat (power_mode_val POWER_MODE_DEEP_SLEEP)\<rparr>\<rparr>;
          (now, s2) = millis env s1;
          s3 = s2\<lparr>rtc_state := (rtc_state s2)\<lparr>last_active_time := now\<rparr>\<rparr>;
          (v, s4) = read_battery_voltage env s3;
          s5 = s4\<lparr>rtc_state := (rtc_state s4)\<lparr>battery_voltage := v\<rparr>\<rparr>;
          s6 = s5\<lparr>rtc_state := (rtc_state s5)\<lparr>checksum := calculate_checksum (rtc_state s5)\<rparr>\<rparr>;
          s7 = steps [send_minimal_telemetry,
                      configure_gpio_for_sleep,
                      call Esp_wifi_stop,
                      call Esp_bt_controller_disable,
                      call (Esp_sleep_enable_timer_wakeup (heartbeat_interval_ms (config s6) * 1000)),
                      call (Esp_sleep_enable_ext0_wakeup (wake_pin (config s6)) 0)] s6;
          s8 = (if enable_ulp (config s7) then call Esp_sleep_enable_ulp_wakeup s7 else s7)
      in steps [call Serial_print, call Serial_flush, call Esp_deep_sleep_start] s8)"

definition hibernation_entry :: "esp32_env \<Rightarrow> pm_state \<Rightarrow> pm_state" where
  "hibernation_entry env s0 =
     (let s1 = s0\<lparr>rtc_state := (rtc_state s0)
                 \<lparr>rtc_current_mode := of_nat (power_mode_val POWER_MODE_HIBERNATION)\<rparr>\<rparr>;
          s2 = s1\<lparr>rtc_state := (rtc_state s1)\<lparr>checksum := calculate_checksum (rtc_state s1)\<rparr>\<rparr>;
          s3 = steps [call Esp_sleep_disable_wakeup_source_all,
                      call (Esp_sleep_enable_timer_wakeup
                              (heartbeat_interval_ms (config s2) * 1000 * 10)),
                      call (Esp_sleep_enable_ext0_wakeup (wake_pin (config s2)) 0)] s2;
          s4 = steps (map (\<lambda>i. if int i \<noteq> wake_pin (config s3) \<and> rtc_gpio_is_valid_gpio env (int i)
                                then call (Rtc_gpio_isolate (int i)) else id)
                          [0 ..< GPIO_NUM_MAX env]) s3
      in steps [call Serial_print, call Serial_flush, call Esp_deep_sleep_start] s4)"

definition power_manager_set_mode ::
  "esp32_env \<Rightarrow> power_mode_t \<Rightarrow> pm_state \<Rightarrow> bool outcome" where
  "power_manager_set_mode env mode s0 =
     (if mode = current_mode s0 then Returns True s0
      else
        let s = call Serial_print s0 in
        case mode of
          POWER_MODE_ACTIVE \<Rightarrow> Returns True ((set_mode_active s)\<lparr>current_mode := mode\<rparr>)
        | POWER_MODE_MODEM_SLEEP \<Rightarrow> Returns True ((set_mode_modem_sleep s)\<lparr>current_mode := mode\<rparr>)
        | POWER_MODE_LIGHT_SLEEP \<Rightarrow>
            Returns True ((light_sleep_resume env (light_sleep_entry s))\<lparr>current_mode := mode\<rparr>)
        | POWER_MODE_DEEP_SLEEP \<Rightarrow> Suspended (deep_sleep_entry env s)
        | POWER_MODE_HIBERNATION \<Rightarrow> Suspended (hibernation_entry env s))"

definition power_manager_get_mode :: "pm_state \<Rightarrow> power_mode_t" where
  "power_manager_get_mode s = current_mode s"

text \<open>A caller that ignores the \<^verbatim>\<open>bool\<close> of \<^verbatim>\<open>power_manager_set_mode\<close>.\<close>

fun ignore_result :: "'a outcome \<Rightarrow> unit outcome" where
  "ignore_result (Returns v s) = Returns () s"
| "ignore_result (Suspended s) = Suspended s"

subsection \<open>Activity, telemetry buffer, alert\<close>

definition power_manager_activity :: "esp32_env \<Rightarrow> pm_state \<Rightarrow> unit outcome" where
  "power_manager_activity env s0 =
     (let (now, s1) = millis env s0;
          s2 = s1\<lparr>last_activity_time := now\<rparr>
      in if current_mode s2 \<noteq> POWER_MODE_ACTIVE
         then ignore_result (power_manager_set_mode env POWER_MODE_ACTIVE s2)
         else Returns () s2)"

text \<open>\<^verbatim>\<open>memcpy(&buf[i], data, n)\<close>, byte by byte; \<open>data\<close> lists the \<open>n\<close> source bytes.
  The callers keep \<open>i + n\<close> within the array.\<close>

fun memcpy_at :: "(u8 \<Rightarrow> u8) \<Rightarrow> nat \<Rightarrow> u8 list \<Rightarrow> (u8 \<Rightarrow> u8)" where
  "memcpy_at buf i [] = buf"
| "memcpy_at buf i (d # ds) = memcpy_at (buf(of_nat i := d)) (Suc i) ds"

text \<open>
  \<open>data\<close> is the caller's memory behind the pointer: \<open>data k\<close> is \<^verbatim>\<open>data[k]\<close>. The sum
  \<^verbatim>\<open>rtc_state.buffer_index + len\<close> is computed in \<^verbatim>\<open>int\<close> and cannot wrap; the
  cursor update \<^verbatim>\<open>+=\<close> is in \<^verbatim>\<open>uint8_t\<close>.
\<close>

definition power_manager_buffer_telemetry ::
  "(nat \<Rightarrow> u8) \<Rightarrow> u8 \<Rightarrow> pm_state \<Rightarrow> bool \<times> pm_state" where
  "power_manager_buffer_telemetry data len s =
     (let r = rtc_state s in
      if unat (buffer_index r) + unat len \<ge> TELEMETRY_BUFFER_SIZE then (False, s)
      else
        let r1 = r\<lparr>telemetry_buffer :=
                     memcpy_at (telemetry_buffer r) (unat (buffer_index r))
                               (map data [0 ..< unat len])\<rparr>;
            r2 = r1\<lparr>buffer_index := buffer_index r1 + len\<rparr>
        in (True, s\<lparr>rtc_state := r2\<rparr>))"

text \<open>Returns the length and the bytes written to the caller's buffer.\<close>

definition power_manager_get_buffered_telemetry :: "u8 \<Rightarrow> pm_state \<Rightarrow> u8 \<times> u8 list" where
  "power_manager_get_buffered_telemetry max_len s =
     (let len = min (buffer_index (rtc_state s)) max_len
      in (len, map (\<lambda>k. telemetry_buffer (rtc_state s) (of_nat k)) [0 ..< unat len]))"

definition power_manager_clear_buffer :: "pm_state \<Rightarrow> pm_state" where
  "power_manager_clear_buffer s =
     s\<lparr>rtc_state := (rtc_state s)
         \<lparr>buffer_index := 0, telemetry_buffer := (\<lambda>k. 0)\<rparr>\<rparr>"

definition power_manager_set_alert :: "esp32_env \<Rightarrow> bool \<Rightarrow> pm_state \<Rightarrow> unit outcome" where
  "power_manager_set_alert env alert s0 =
     (let s1 = s0\<lparr>rtc_state := (rtc_state s0)
                 \<lparr>critical_alert_pending := (if alert then 1 else 0)\<rparr>\<rparr>
      in if alert \<and> power_mode_val (current_mode s1) \<ge> power_mode_val POWER_MODE_LIGHT_SLEEP
         then ignore_result (power_manager_set_mode env POWER_MODE_ACTIVE s1)
         else Returns () s1)"

definition power_manager_has_alert :: "pm_state \<Rightarrow> bool" where
  "power_manager_has_alert s = (critical_alert_pending (rtc_state s) \<noteq> 0)"

subsection \<open>The policy\<close>

definition power_manager_process :: "esp32_env \<Rightarrow> pm_state \<Rightarrow> unit outcome" where
  "power_manager_process env s0 =
     (if \<not> initialized s0 then Returns () s0
      else
        let (now, s1) = millis env s0;
            idle_time = now - last_activity_time s1;
            (battery_v, s) = read_battery_voltage env s1
        in
        if f32_less battery_v (battery_critical_v (config s)) then
          ignore_result (power_manager_set_mode env POWER_MODE_HIBERNATION (call Serial_print s))
        else if f32_less battery_v (battery_low_v (config s))
                \<and> idle_time > idle_timeout_ms (config s) div 2 then
          ignore_result (power_manager_set_mode env POWER_MODE_DEEP_SLEEP s)
        else if current_mode s = POWER_MODE_ACTIVE then
          (if idle_time > deep_sleep_timeout_ms (config s) then
             ignore_result (power_manager_set_mode env POWER_MODE_DEEP_SLEEP s)
           else if idle_time > idle_timeout_ms (config s) then
             ignore_result (power_manager_set_mode env POWER_MODE_LIGHT_SLEEP s)
           else if idle_time > idle_timeout_ms (config s) div 2 then
             ignore_result (power_manager_set_mode env POWER_MODE_MODEM_SLEEP s)
           else Returns () s)
        else Returns () s)"

subsection \<open>The policy as the specification words it\<close>

text \<open>
  The specification gives the policy as five rules in priority order, the first whose
  condition holds naming the mode to enter. This is that table, written from the
  specification's text, to be compared with \<open>power_manager_process\<close>.
\<close>

definition spec_policy_rules ::
  "power_config_t \<Rightarrow> power_mode_t \<Rightarrow> f32 \<Rightarrow> u32 \<Rightarrow> (bool \<times> power_mode_t) list" where
  "spec_policy_rules cfg current battery_v idle_time =
     [(f32_less battery_v (battery_critical_v cfg), POWER_MODE_HIBERNATION),
      (f32_less battery_v (battery_low_v cfg) \<and> idle_time > idle_timeout_ms cfg div 2,
         POWER_MODE_DEEP_SLEEP),
      (current = POWER_MODE_ACTIVE \<and> idle_time > deep_sleep_timeout_ms cfg,
         POWER_MODE_DEEP_SLEEP),
      (current = POWER_MODE_ACTIVE \<and> idle_time > idle_timeout_ms cfg,
         POWER_MODE_LIGHT_SLEEP),
      (current = POWER_MODE_ACTIVE \<and> idle_time > idle_timeout_ms cfg div 2,
         POWER_MODE_MODEM_SLEEP)]"

fun spec_first_match :: "(bool \<times> 'a) list \<Rightarrow> 'a option" where
  "spec_first_match [] = None"
| "spec_first_match ((c, m) # rules) = (if c then Some m else spec_first_match rules)"

subsection \<open>Concrete inputs\<close>

text \<open>
  The module's variables as their initialisers leave them at boot, over a given content
  of the RTC memory.
\<close>

definition boot_state :: "rtc_state_t \<Rightarrow> pm_state" where
  "boot_state r =
     \<lparr>config = default_config, rtc_state = r, current_mode = POWER_MODE_ACTIVE,
      last_activity_time = 0, initialized = False, millis_calls = 0, adc_reads = 0,
      trace = []\<rparr>"

text \<open>
  A platform for the examples: a cold boot of an ESP32 (40 GPIO numbers, 18 of them RTC
  pins) whose clock reads 5000 ms at the first call and 400000 ms afterwards, and whose
  ADC always samples 1800, which is 2.900390625 V, \<open>0x4039A000\<close> as binary32.
  \<open>wake_env\<close> is the same platform after a timer wake-up.
\<close>

definition example_env :: esp32_env where
  "example_env =
     \<lparr>wakeup_cause = ESP_SLEEP_WAKEUP_UNDEFINED,
      millis_seq = (\<lambda>n. if n = 0 then 5000 else 400000),
      adc_raw_seq = (\<lambda>n. 1800),
      adc_to_voltage = (\<lambda>raw. if raw = 1800 then 0x4039A000 else 0x406CC666),
      GPIO_NUM_MAX = 40,
      rtc_gpio_is_valid_gpio =
        (\<lambda>i. i \<in> {0, 2, 4, 12, 13, 14, 15, 25, 26, 27, 32, 33, 34, 35, 36, 37, 38, 39})\<rparr>"

definition wake_env :: esp32_env where
  "wake_env = example_env\<lparr>wakeup_cause := ESP_SLEEP_WAKEUP_TIMER\<rparr>"

text \<open>The state after \<^verbatim>\<open>power_manager_init(NULL)\<close> on a cold boot.\<close>

definition ready_state :: pm_state where
  "ready_state = power_manager_init example_env None (boot_state rtc_zeroed)"

text \<open>The same state after \<^verbatim>\<open>power_manager_set_alert(true)\<close>: the record has changed
  since its checksum was last stored.\<close>

definition alert_state :: pm_state where
  "alert_state = final_state (power_manager_set_alert example_env True ready_state)"

text \<open>A platform whose clock reads 40000 ms after start-up and whose ADC samples 2296,
  which is 3.6996 V, \<open>0x406CC666\<close>.\<close>

definition idle_env :: esp32_env where
  "idle_env =
     example_env\<lparr>millis_seq := (\<lambda>n. if n = 0 then 5000 else 40000),
                  adc_raw_seq := (\<lambda>n. 2296)\<rparr>"

section \<open>Auxiliary facts\<close>

subsection \<open>Platform calls only extend the trace\<close>

lemma call_fields [simp]:
  "config (call c s) = config s"
  "rtc_state (call c s) = rtc_state s"
  "current_mode (call c s) = current_mode s"
  "last_activity_time (call c s) = last_activity_time s"
  "initialized (call c s) = initialized s"
  "millis_calls (call c s) = millis_calls s"
  "adc_reads (call c s) = adc_reads s"
  "trace (call c s) = trace s @ [c]"
  by (simp_all add: call_def)

lemma steps_conditional_calls:
  "steps (map (\<lambda>i. if P i then call (c i) else id) xs) s
     = s\<lparr>trace := trace s @ map c (filter P xs)\<rparr>"
  by (induction xs arbitrary: s) (simp_all add: call_def)

subsection \<open>The byte sum\<close>

lemma sum_bytes_append: "sum_bytes (xs @ ys) acc = sum_bytes ys (sum_bytes xs acc)"
  by (induction xs arbitrary: acc) simp_all

lemma sum_bytes_replicate_zero: "sum_bytes (replicate n 0) acc = acc"
  by (induction n arbitrary: acc) simp_all

lemma unat_byte_le: "unat (b :: u8) \<le> 255"
  using unsigned_less [of b, where ?'a = nat] by simp

text \<open>As long as the running total stays below \<open>2 ^ 32\<close> the 32-bit sum is the sum of
  the bytes.\<close>

lemma unat_sum_bytes:
  "unat acc + 255 * length bs < 2 ^ 32 \<Longrightarrow>
     unat (sum_bytes bs acc) = unat acc + sum_list (map unat bs)"
proof (induction bs arbitrary: acc)
  case Nil
  show ?case by simp
next
  case (Cons b bs)
  have b: "unat b \<le> 255"
    by (rule unat_byte_le)
  have ub: "unat (ucast b :: u32) = unat b"
    by (simp add: unsigned_ucast_eq take_bit_nat_eq_self_iff) (use b in simp)
  have step: "unat (acc + ucast b) = unat acc + unat b"
    using Cons.prems b ub by (simp add: unat_word_ariths)
  have "unat (acc + ucast b) + 255 * length bs < 2 ^ 32"
    using Cons.prems b step by simp
  from Cons.IH [OF this] step show ?case by simp
qed

lemma unat_checksum_of_bytes:
  "unat (checksum_of_bytes ptr) = sum_list (map unat (take CHECKSUM_OFFSET ptr))"
proof -
  have "length (take CHECKSUM_OFFSET ptr) \<le> 280"
    by (simp add: CHECKSUM_OFFSET_def)
  then have "unat (0 :: u32) + 255 * length (take CHECKSUM_OFFSET ptr) < 2 ^ 32"
    by simp
  from unat_sum_bytes [OF this] show ?thesis
    by (simp add: checksum_of_bytes_def)
qed

lemma length_rtc_bytes: "length (rtc_bytes r) = 284"
  by (simp add: rtc_bytes_def le32_def TELEMETRY_BUFFER_SIZE_def)

lemma checksum_of_bytes_mutation:
  assumes i: "i < CHECKSUM_OFFSET" and len: "i < length ptr" and v: "v \<noteq> ptr ! i"
  shows "checksum_of_bytes (ptr[i := v]) \<noteq> checksum_of_bytes ptr"
proof
  assume eq: "checksum_of_bytes (ptr[i := v]) = checksum_of_bytes ptr"
  let ?xs = "map unat (take CHECKSUM_OFFSET ptr)"
  have li: "i < length ?xs"
    using i len by simp
  have upd: "map unat (take CHECKSUM_OFFSET (ptr[i := v])) = ?xs[i := unat v]"
    by (simp add: take_update_swap map_update)
  have at: "?xs ! i = unat (ptr ! i)"
    using i len by simp
  have "unat (checksum_of_bytes (ptr[i := v])) = unat (checksum_of_bytes ptr)"
    using eq by simp
  then have "sum_list (?xs[i := unat v]) = sum_list ?xs"
    by (simp only: unat_checksum_of_bytes upd)
  moreover have "sum_list (?xs[i := unat v]) = sum_list ?xs + unat v - ?xs ! i"
    using li by (rule sum_list_update)
  moreover have "?xs ! i \<le> sum_list ?xs"
    using li by (intro member_le_sum_list nth_mem) simp_all
  ultimately have "unat v = unat (ptr ! i)"
    using at by simp
  then have "v = ptr ! i"
    by (rule unsigned_word_eqI)
  with v show False
    by simp
qed

lemma rtc_bytes_checksum_upd:
  "take CHECKSUM_OFFSET (rtc_bytes (r\<lparr>checksum := c\<rparr>)) = take CHECKSUM_OFFSET (rtc_bytes r)"
  by (simp add: rtc_bytes_def le32_def CHECKSUM_OFFSET_def TELEMETRY_BUFFER_SIZE_def)

lemma calculate_checksum_upd [simp]:
  "calculate_checksum (r\<lparr>checksum := c\<rparr>) = calculate_checksum r"
  by (simp add: calculate_checksum_def checksum_of_bytes_def rtc_bytes_checksum_upd)

lemma calculate_checksum_rtc_zeroed: "calculate_checksum rtc_zeroed = 0"
  by (simp add: calculate_checksum_def checksum_of_bytes_def rtc_bytes_def le32_def
      rtc_zeroed_def CHECKSUM_OFFSET_def TELEMETRY_BUFFER_SIZE_def sum_bytes_append
      sum_bytes_replicate_zero map_replicate_const)

subsection \<open>Entry actions\<close>

lemma configure_gpio_for_sleep_fields [simp]:
  "config (configure_gpio_for_sleep s) = config s"
  "rtc_state (configure_gpio_for_sleep s) = rtc_state s"
  "current_mode (configure_gpio_for_sleep s) = current_mode s"
  "last_activity_time (configure_gpio_for_sleep s) = last_activity_time s"
  "initialized (configure_gpio_for_sleep s) = initialized s"
  "millis_calls (configure_gpio_for_sleep s) = millis_calls s"
  "adc_reads (configure_gpio_for_sleep s) = adc_reads s"
  "trace (configure_gpio_for_sleep s) =
     trace s @ Uart_driver_delete
       # concat (map (\<lambda>p. [Gpio_set_direction_input p, Gpio_pulldown_en p]) unused_pins)"
  by (simp_all add: configure_gpio_for_sleep_def unused_pins_def)

lemma send_minimal_telemetry_fields [simp]:
  "config (send_minimal_telemetry s) = config s"
  "rtc_state (send_minimal_telemetry s) = rtc_state s"
  "current_mode (send_minimal_telemetry s) = current_mode s"
  "last_activity_time (send_minimal_telemetry s) = last_activity_time s"
  "initialized (send_minimal_telemetry s) = initialized s"
  "millis_calls (send_minimal_telemetry s) = millis_calls s"
  "adc_reads (send_minimal_telemetry s) = adc_reads s"
  "trace (send_minimal_telemetry s) = trace s @ [Serial_print, Serial_flush]"
  by (simp_all add: send_minimal_telemetry_def)

lemma set_mode_active_returns:
  "current_mode s \<noteq> POWER_MODE_ACTIVE \<Longrightarrow>
     power_manager_set_mode env POWER_MODE_ACTIVE s =
       Returns True
         (s\<lparr>current_mode := POWER_MODE_ACTIVE,
            trace := trace s @ Serial_print # Uart_driver_install
                       # (if enable_wifi_modem_sleep (config s)
                          then [Esp_wifi_set_ps WIFI_PS_NONE] else [])\<rparr>)"
  by (simp add: power_manager_set_mode_def set_mode_active_def restore_gpio_after_wake_def
      call_def Let_def)

lemma hibernation_entry_rtc:
  "rtc_state (hibernation_entry env s) =
     (rtc_state s)\<lparr>rtc_current_mode := 4,
                   checksum := calculate_checksum ((rtc_state s)\<lparr>rtc_current_mode := 4\<rparr>)\<rparr>"
  by (simp add: hibernation_entry_def steps_conditional_calls Let_def)

lemma hibernation_entry_last:
  "last (trace (hibernation_entry env s)) = Esp_deep_sleep_start"
  by (simp add: hibernation_entry_def steps_conditional_calls Let_def)

lemma deep_sleep_entry_rtc:
  "rtc_state (deep_sleep_entry env s) =
     (let r = (rtc_state s)\<lparr>rtc_current_mode := 3,
                 last_active_time := millis_seq env (millis_calls s),
                 battery_voltage := adc_to_voltage env (adc_raw_seq env (adc_reads s))\<rparr>
      in r\<lparr>checksum := calculate_checksum r\<rparr>)"
  by (simp add: deep_sleep_entry_def millis_def read_battery_voltage_def Let_def)

lemma deep_sleep_entry_last:
  "last (trace (deep_sleep_entry env s)) = Esp_deep_sleep_start"
  by (simp add: deep_sleep_entry_def millis_def read_battery_voltage_def Let_def)

lemma light_sleep_entry_rtc:
  "rtc_state (light_sleep_entry s) = rtc_state s"
  "last (trace (light_sleep_entry s)) = Esp_light_sleep_start"
  by (simp_all add: light_sleep_entry_def)

lemma light_sleep_resume_rtc:
  "rtc_state (light_sleep_resume env s) = rtc_state s"
  "trace (light_sleep_resume env s) = trace s @ [Uart_driver_install]"
  by (simp_all add: light_sleep_resume_def restore_gpio_after_wake_def millis_def)

subsection \<open>The concrete inputs\<close>

lemma ready_state_fields:
  "config ready_state = default_config"
  "rtc_state ready_state = rtc_zeroed"
  "current_mode ready_state = POWER_MODE_ACTIVE"
  "last_activity_time ready_state = 5000"
  "initialized ready_state"
  "millis_calls ready_state = 1"
  "adc_reads ready_state = 0"
  by (simp_all add: ready_state_def power_manager_init_def boot_state_def example_env_def
      default_config_def configure_ulp_program_def millis_def Let_def)

lemma f32_less_examples:
  "f32_less 0x4039A000 0x40400000"
  "\<not> f32_less 0x406CC666 0x40400000"
  "\<not> f32_less 0x406CC666 0x40533333"
  by (simp_all add: f32_less_def f32_is_nan_def f32_exponent_def f32_mantissa_def
      f32_scaled_def f32_sign_def)

lemma alert_state_fields:
  "config alert_state = default_config"
  "rtc_state alert_state = rtc_zeroed\<lparr>critical_alert_pending := 1\<rparr>"
  "current_mode alert_state = POWER_MODE_ACTIVE"
  by (simp_all add: alert_state_def power_manager_set_alert_def ready_state_fields)

subsection \<open>Copying into the telemetry buffer\<close>

lemma of_nat_byte_eq_iff: "i < 256 \<Longrightarrow> (of_nat i = (k :: u8)) = (i = unat k)"
proof
  assume i: "i < 256" and eq: "of_nat i = k"
  have "unat (of_nat i :: u8) = i"
    using i by (simp add: unat_of_nat)
  with eq show "i = unat k"
    by simp
next
  assume "i = unat k"
  then show "of_nat i = k"
    by simp
qed

lemma memcpy_at_apply:
  "i + length ds \<le> 256 \<Longrightarrow>
     memcpy_at buf i ds k =
       (if i \<le> unat k \<and> unat k < i + length ds then ds ! (unat k - i) else buf k)"
proof (induction ds arbitrary: buf i)
  case Nil
  show ?case by auto
next
  case (Cons d ds)
  have i: "i < 256"
    using Cons.prems by simp
  have "Suc i + length ds \<le> 256"
    using Cons.prems by simp
  have step: "memcpy_at buf i (d # ds) k =
      (if Suc i \<le> unat k \<and> unat k < Suc i + length ds then ds ! (unat k - Suc i)
       else (buf(of_nat i := d)) k)"
    unfolding memcpy_at.simps by (rule Cons.IH) fact
  show ?case
  proof (cases "unat k = i")
    case True
    then have "of_nat i = k"
      using of_nat_byte_eq_iff [OF i, of k] by simp
    with True show ?thesis
      unfolding step by simp
  next
    case False
    then have "of_nat i \<noteq> k"
      using of_nat_byte_eq_iff [OF i, of k] by simp
    with False show ?thesis
      unfolding step by (auto simp: nth_Cons' Suc_diff_Suc)
  qed
qed

subsection \<open>Transitions and initialisation in closed form\<close>

lemma millis_fields [simp]:
  "fst (millis env s) = millis_seq env (millis_calls s)"
  "config (snd (millis env s)) = config s"
  "rtc_state (snd (millis env s)) = rtc_state s"
  "current_mode (snd (millis env s)) = current_mode s"
  "last_activity_time (snd (millis env s)) = last_activity_time s"
  "initialized (snd (millis env s)) = initialized s"
  "millis_calls (snd (millis env s)) = Suc (millis_calls s)"
  "adc_reads (snd (millis env s)) = adc_reads s"
  "trace (snd (millis env s)) = trace s"
  by (simp_all add: millis_def)

lemma read_battery_voltage_fields [simp]:
  "fst (read_battery_voltage env s) = adc_to_voltage env (adc_raw_seq env (adc_reads s))"
  "config (snd (read_battery_voltage env s)) = config s"
  "rtc_state (snd (read_battery_voltage env s)) = rtc_state s"
  "current_mode (snd (read_battery_voltage env s)) = current_mode s"
  "last_activity_time (snd (read_battery_voltage env s)) = last_activity_time s"
  "initialized (snd (read_battery_voltage env s)) = initialized s"
  "millis_calls (snd (read_battery_voltage env s)) = millis_calls s"
  "adc_reads (snd (read_battery_voltage env s)) = Suc (adc_reads s)"
  "trace (snd (read_battery_voltage env s)) =
     trace s @ [Adc1_config_width, Adc1_config_channel_atten, Adc1_get_raw]"
  by (simp_all add: read_battery_voltage_def Let_def)

lemma set_mode_hibernation_suspends:
  "current_mode s \<noteq> POWER_MODE_HIBERNATION \<Longrightarrow>
     power_manager_set_mode env POWER_MODE_HIBERNATION s
       = Suspended (hibernation_entry env (call Serial_print s))"
  by (auto simp: power_manager_set_mode_def Let_def)

lemma set_mode_deep_sleep_suspends:
  "current_mode s \<noteq> POWER_MODE_DEEP_SLEEP \<Longrightarrow>
     power_manager_set_mode env POWER_MODE_DEEP_SLEEP s
       = Suspended (deep_sleep_entry env (call Serial_print s))"
  by (auto simp: power_manager_set_mode_def Let_def)

lemma set_mode_light_sleep_returns:
  "current_mode s \<noteq> POWER_MODE_LIGHT_SLEEP \<Longrightarrow>
     power_manager_set_mode env POWER_MODE_LIGHT_SLEEP s
       = Returns True ((light_sleep_resume env (light_sleep_entry (call Serial_print s)))
                         \<lparr>current_mode := POWER_MODE_LIGHT_SLEEP\<rparr>)"
  by (auto simp: power_manager_set_mode_def Let_def)

lemma power_manager_init_rtc:
  "rtc_state (power_manager_init env user_config s) =
     (if wakeup_cause env \<noteq> ESP_SLEEP_WAKEUP_UNDEFINED
         \<and> calculate_checksum (rtc_state s) = checksum (rtc_state s)
      then (rtc_state s)\<lparr>wake_count := wake_count (rtc_state s) + 1\<rparr>
      else rtc_zeroed)"
  by (cases user_config)
    (simp_all add: power_manager_init_def configure_ulp_program_def millis_def Let_def)

lemma power_manager_init_initialized:
  "initialized (power_manager_init env user_config s)"
  by (cases user_config)
    (simp_all add: power_manager_init_def configure_ulp_program_def millis_def Let_def)

lemma rtc_bytes_zeroed: "rtc_bytes rtc_zeroed = replicate 284 0"
proof -
  have "rtc_bytes rtc_zeroed = replicate 21 0 @ replicate 256 0 @ replicate 7 0"
    by (simp add: rtc_bytes_def rtc_zeroed_def le32_def TELEMETRY_BUFFER_SIZE_def
        map_replicate_const numeral_eq_Suc)
  also have "\<dots> = replicate 284 0"
    by (simp add: replicate_add [symmetric])
  finally show ?thesis .
qed

lemma calculate_checksum_examples:
  "calculate_checksum (rtc_zeroed\<lparr>wake_count := 3\<rparr>) = 3"
  "calculate_checksum (rtc_zeroed\<lparr>critical_alert_pending := 1\<rparr>) = 1"
  "calculate_checksum (rtc_zeroed\<lparr>rtc_current_mode := 4\<rparr>) = 4"
  by (simp_all add: calculate_checksum_def checksum_of_bytes_def rtc_bytes_def le32_def
      rtc_zeroed_def CHECKSUM_OFFSET_def TELEMETRY_BUFFER_SIZE_def sum_bytes_append
      sum_bytes_replicate_zero map_replicate_const)

section \<open>The claims\<close>

text \<open>
  Claim C1. For every call of \<open>power_manager_process\<close> with \<open>initialized\<close> set: with
  the idle time the clock's reading minus the last-activity time (in 32-bit arithmetic)
  and the battery voltage as read, the call does what the first matching rule of the
  specification's table says. It calls \<open>power_manager_set_mode\<close> with that rule's mode,
  whatever the current mode for the two battery rules and only from \<open>ACTIVE\<close> for the
  three idle rules; when no rule matches it returns with the current mode unchanged. In
  particular, with the battery below critical, the mode \<open>ACTIVE\<close> and the idle time
  above the deep-sleep timeout, the processor is suspended with \<open>HIBERNATION\<close> stored in
  the record, not \<open>DEEP_SLEEP\<close>.
\<close>

theorem process_applies_rules_in_priority_order:
  assumes "initialized s"
  shows
  "let idle_time = fst (millis env s) - last_activity_time s;
       s1 = snd (millis env s);
       battery_v = fst (read_battery_voltage env s1);
       s2 = snd (read_battery_voltage env s1)
   in power_manager_process env s =
        (case spec_first_match
                (spec_policy_rules (config s) (current_mode s) battery_v idle_time) of
           None \<Rightarrow> Returns () s2
         | Some m \<Rightarrow>
             ignore_result
               (power_manager_set_mode env m
                  (if m = POWER_MODE_HIBERNATION then call Serial_print s2 else s2)))
      \<and> current_mode s2 = current_mode s
      \<and> (f32_less battery_v (battery_critical_v (config s))
           \<and> current_mode s = POWER_MODE_ACTIVE
           \<and> idle_time > deep_sleep_timeout_ms (config s) \<longrightarrow>
           is_suspended (power_manager_process env s)
           \<and> rtc_current_mode (rtc_state (final_state (power_manager_process env s)))
               = of_nat (power_mode_val POWER_MODE_HIBERNATION))"
proof -
  let ?idle = "fst (millis env s) - last_activity_time s"
  let ?s1 = "snd (millis env s)"
  let ?v = "fst (read_battery_voltage env ?s1)"
  let ?s2 = "snd (read_battery_voltage env ?s1)"
  have refine: "power_manager_process env s =
        (case spec_first_match (spec_policy_rules (config s) (current_mode s) ?v ?idle) of
           None \<Rightarrow> Returns () ?s2
         | Some m \<Rightarrow>
             ignore_result
               (power_manager_set_mode env m
                  (if m = POWER_MODE_HIBERNATION then call Serial_print ?s2 else ?s2)))"
    using assms
    by (simp add: power_manager_process_def spec_policy_rules_def Let_def split_beta
        del: read_battery_voltage_fields(1) millis_fields(1))
  have mode: "current_mode ?s2 = current_mode s"
    by simp
  have hib: "is_suspended (power_manager_process env s)
           \<and> rtc_current_mode (rtc_state (final_state (power_manager_process env s)))
               = of_nat (power_mode_val POWER_MODE_HIBERNATION)"
    if "f32_less ?v (battery_critical_v (config s))" "current_mode s = POWER_MODE_ACTIVE"
  proof -
    have "power_manager_process env s =
            Suspended (hibernation_entry env (call Serial_print (call Serial_print ?s2)))"
      using that unfolding refine
      by (simp add: spec_policy_rules_def set_mode_hibernation_suspends
          del: read_battery_voltage_fields(1) millis_fields(1))
    then show ?thesis
      by (simp add: hibernation_entry_rtc)
  qed
  from refine mode hib show ?thesis
    by (simp add: Let_def del: read_battery_voltage_fields(1) millis_fields(1))
qed

theorem process_applies_rules_in_priority_order_witness:
  "initialized ready_state
   \<and> f32_less (fst (read_battery_voltage example_env (snd (millis example_env ready_state))))
        (battery_critical_v (config ready_state))
   \<and> current_mode ready_state = POWER_MODE_ACTIVE
   \<and> fst (millis example_env ready_state) - last_activity_time ready_state
        > deep_sleep_timeout_ms (config ready_state)
   \<and> is_suspended (power_manager_process example_env ready_state)
   \<and> rtc_current_mode (rtc_state (final_state (power_manager_process example_env ready_state)))
        = 4
   \<and> spec_first_match (spec_policy_rules (config ready_state) POWER_MODE_ACTIVE 0x406CC666 35000)
        = Some POWER_MODE_LIGHT_SLEEP
   \<and> \<not> is_suspended (power_manager_process idle_env ready_state)
   \<and> current_mode (final_state (power_manager_process idle_env ready_state))
        = POWER_MODE_LIGHT_SLEEP"
proof -
  have init: "initialized ready_state"
    by (simp add: ready_state_fields)
  have hyps:
    "f32_less (fst (read_battery_voltage example_env (snd (millis example_env ready_state))))
        (battery_critical_v (config ready_state))"
    "current_mode ready_state = POWER_MODE_ACTIVE"
    "fst (millis example_env ready_state) - last_activity_time ready_state
        > deep_sleep_timeout_ms (config ready_state)"
    by (simp_all add: ready_state_fields example_env_def default_config_def f32_less_examples)
  have rules:
    "spec_first_match (spec_policy_rules (config ready_state) POWER_MODE_ACTIVE 0x406CC666 35000)
        = Some POWER_MODE_LIGHT_SLEEP"
    by (simp add: spec_policy_rules_def ready_state_fields default_config_def f32_less_examples)
  have idle:
    "fst (millis idle_env ready_state) - last_activity_time ready_state = 35000"
    "fst (read_battery_voltage idle_env (snd (millis idle_env ready_state))) = 0x406CC666"
    by (simp_all add: ready_state_fields idle_env_def example_env_def)
  have light: "power_manager_process idle_env ready_state =
      ignore_result (power_manager_set_mode idle_env POWER_MODE_LIGHT_SLEEP
        (snd (read_battery_voltage idle_env (snd (millis idle_env ready_state)))))"
    using process_applies_rules_in_priority_order [OF init, of idle_env]
    unfolding Let_def idle ready_state_fields(3) rules
    by simp
  note at_example = process_applies_rules_in_priority_order [OF init, of example_env, unfolded Let_def]
  have "is_suspended (power_manager_process example_env ready_state)
    \<and> rtc_current_mode (rtc_state (final_state (power_manager_process example_env ready_state)))
        = of_nat (power_mode_val POWER_MODE_HIBERNATION)"
    by (rule at_example [THEN conjunct2, THEN conjunct2, THEN mp]) (intro conjI hyps)
  then have hib: "is_suspended (power_manager_process example_env ready_state)
    \<and> rtc_current_mode (rtc_state (final_state (power_manager_process example_env ready_state)))
        = 4"
    by simp
  from init hyps rules hib show ?thesis
    unfolding light
    by (simp add: set_mode_light_sleep_returns ready_state_fields)
qed

text \<open>
  Claim C2. For every retained record and every wake cause, \<open>power_manager_init\<close>
  returns with \<open>initialized\<close> set, and the record it leaves is: after a wake-up from
  sleep (a cause other than \<open>ESP_SLEEP_WAKEUP_UNDEFINED\<close>) with the recomputed checksum
  equal to the stored one, the stored record with \<open>wake_count\<close> one higher (in 32-bit
  arithmetic) and nothing else changed; after such a wake-up with a different checksum,
  the all-zero record, so \<open>wake_count\<close> is 0 and reading the telemetry buffer yields no
  bytes; after a cold boot, the all-zero record whatever was stored.
\<close>

theorem init_validates_retained_record:
  "let s' = power_manager_init env user_config s in
   (wakeup_cause env \<noteq> ESP_SLEEP_WAKEUP_UNDEFINED
      \<and> calculate_checksum (rtc_state s) = checksum (rtc_state s) \<longrightarrow>
      rtc_state s' = (rtc_state s)\<lparr>wake_count := wake_count (rtc_state s) + 1\<rparr>)
   \<and> (wakeup_cause env \<noteq> ESP_SLEEP_WAKEUP_UNDEFINED
      \<and> calculate_checksum (rtc_state s) \<noteq> checksum (rtc_state s) \<longrightarrow>
      rtc_state s' = rtc_zeroed \<and> wake_count (rtc_state s') = 0
      \<and> power_manager_get_buffered_telemetry max_len s' = (0, []))
   \<and> (wakeup_cause env = ESP_SLEEP_WAKEUP_UNDEFINED \<longrightarrow> rtc_state s' = rtc_zeroed)
   \<and> initialized s'
   \<and> rtc_bytes rtc_zeroed = replicate 284 0"
  by (simp add: Let_def power_manager_init_rtc power_manager_init_initialized rtc_bytes_zeroed
      power_manager_get_buffered_telemetry_def)
    (simp add: rtc_zeroed_def)

theorem init_validates_retained_record_witness:
  "wakeup_cause wake_env \<noteq> ESP_SLEEP_WAKEUP_UNDEFINED
   \<and> calculate_checksum (rtc_zeroed\<lparr>wake_count := 3, checksum := 3\<rparr>)
       = checksum (rtc_zeroed\<lparr>wake_count := 3, checksum := 3\<rparr>)
   \<and> rtc_state (power_manager_init wake_env None
                   (boot_state (rtc_zeroed\<lparr>wake_count := 3, checksum := 3\<rparr>)))
       = rtc_zeroed\<lparr>wake_count := 4, checksum := 3\<rparr>
   \<and> calculate_checksum (rtc_zeroed\<lparr>wake_count := 3, checksum := 99\<rparr>)
       \<noteq> checksum (rtc_zeroed\<lparr>wake_count := 3, checksum := 99\<rparr>)
   \<and> rtc_state (power_manager_init wake_env None
                   (boot_state (rtc_zeroed\<lparr>wake_count := 3, checksum := 99\<rparr>)))
       = rtc_zeroed
   \<and> wakeup_cause example_env = ESP_SLEEP_WAKEUP_UNDEFINED
   \<and> rtc_state (power_manager_init example_env None
                   (boot_state (rtc_zeroed\<lparr>wake_count := 3, checksum := 3\<rparr>)))
       = rtc_zeroed"
  using init_validates_retained_record
          [of wake_env None "boot_state (rtc_zeroed\<lparr>wake_count := 3, checksum := 3\<rparr>)" 0]
        init_validates_retained_record
          [of wake_env None "boot_state (rtc_zeroed\<lparr>wake_count := 3, checksum := 99\<rparr>)" 0]
        init_validates_retained_record
          [of example_env None "boot_state (rtc_zeroed\<lparr>wake_count := 3, checksum := 3\<rparr>)" 0]
  by (simp add: Let_def wake_env_def example_env_def boot_state_def calculate_checksum_examples)

text \<open>
  Claim C3, as the code has it. Entering \<open>POWER_MODE_HIBERNATION\<close> from another mode
  writes the mode into the retained record, then stores the recomputed checksum, and ends
  in the suspend call with the stored checksum valid. It is not the persistence step of
  \<open>POWER_MODE_DEEP_SLEEP\<close>: the record's \<open>last_active_time\<close> and \<open>battery_voltage\<close>
  are left as they were.
\<close>

theorem hibernation_persists_mode_and_checksum:
  "current_mode s \<noteq> POWER_MODE_HIBERNATION \<Longrightarrow>
     \<exists>s'. power_manager_set_mode env POWER_MODE_HIBERNATION s = Suspended s'
       \<and> rtc_state s' =
           (rtc_state s)
             \<lparr>rtc_current_mode := of_nat (power_mode_val POWER_MODE_HIBERNATION),
              checksum := calculate_checksum
                 ((rtc_state s)\<lparr>rtc_current_mode := of_nat (power_mode_val POWER_MODE_HIBERNATION)\<rparr>)\<rparr>
       \<and> checksum (rtc_state s') = calculate_checksum (rtc_state s')
       \<and> last_active_time (rtc_state s') = last_active_time (rtc_state s)
       \<and> battery_voltage (rtc_state s') = battery_voltage (rtc_state s)
       \<and> last (trace s') = Esp_deep_sleep_start"
  by (simp add: set_mode_hibernation_suspends hibernation_entry_rtc hibernation_entry_last)

theorem hibernation_persists_mode_and_checksum_witness:
  "current_mode ready_state \<noteq> POWER_MODE_HIBERNATION
   \<and> is_suspended (power_manager_set_mode example_env POWER_MODE_HIBERNATION ready_state)
   \<and> rtc_state (final_state (power_manager_set_mode example_env POWER_MODE_HIBERNATION ready_state))
       = rtc_zeroed\<lparr>rtc_current_mode := 4, checksum := 4\<rparr>"
  using hibernation_persists_mode_and_checksum [of ready_state example_env]
  by (auto simp: ready_state_fields calculate_checksum_examples)

text \<open>
  Claim C3 as the specification states it fails: with the clock at 400000 ms and the
  battery at \<open>0x4039A000\<close>, entering deep sleep stores both in the record, while
  entering hibernation from the same state leaves both fields at 0.
\<close>

theorem hibernation_skips_time_and_voltage_counterexample:
  "fst (millis example_env ready_state) = 400000
   \<and> fst (read_battery_voltage example_env ready_state) = 0x4039A000
   \<and> last_active_time (rtc_state (final_state
        (power_manager_set_mode example_env POWER_MODE_DEEP_SLEEP ready_state))) = 400000
   \<and> battery_voltage (rtc_state (final_state
        (power_manager_set_mode example_env POWER_MODE_DEEP_SLEEP ready_state))) = 0x4039A000
   \<and> last_active_time (rtc_state (final_state
        (power_manager_set_mode example_env POWER_MODE_HIBERNATION ready_state))) = 0
   \<and> battery_voltage (rtc_state (final_state
        (power_manager_set_mode example_env POWER_MODE_HIBERNATION ready_state))) = 0
   \<and> last_active_time (rtc_state (final_state
        (power_manager_set_mode example_env POWER_MODE_HIBERNATION ready_state)))
       \<noteq> last_active_time (rtc_state (final_state
        (power_manager_set_mode example_env POWER_MODE_DEEP_SLEEP ready_state)))
   \<and> battery_voltage (rtc_state (final_state
        (power_manager_set_mode example_env POWER_MODE_HIBERNATION ready_state)))
       \<noteq> battery_voltage (rtc_state (final_state
        (power_manager_set_mode example_env POWER_MODE_DEEP_SLEEP ready_state)))"
  by (simp add: set_mode_hibernation_suspends set_mode_deep_sleep_suspends ready_state_fields
      hibernation_entry_rtc deep_sleep_entry_rtc Let_def)
    (simp add: example_env_def rtc_zeroed_def)

text \<open>
  Claim C4, as the code has it. Entering \<open>DEEP_SLEEP\<close> or \<open>HIBERNATION\<close> from another
  mode ends in the suspend call \<open>Esp_deep_sleep_start\<close>, and at that call the checksum
  stored in the record is the checksum recomputed over the record. Entering
  \<open>LIGHT_SLEEP\<close> suspends the processor too, but stores no checksum: the record at the
  suspend call, and when the call returns, is the record as it was.
\<close>

theorem deep_suspension_commits_checksum:
  "(mode \<in> {POWER_MODE_DEEP_SLEEP, POWER_MODE_HIBERNATION} \<and> current_mode s \<noteq> mode \<longrightarrow>
      (\<exists>s'. power_manager_set_mode env mode s = Suspended s'
         \<and> last (trace s') = Esp_deep_sleep_start
         \<and> checksum (rtc_state s') = calculate_checksum (rtc_state s')))
   \<and> (current_mode s \<noteq> POWER_MODE_LIGHT_SLEEP \<longrightarrow>
      (\<exists>s'. power_manager_set_mode env POWER_MODE_LIGHT_SLEEP s = Returns True s'
         \<and> Esp_light_sleep_start \<in> set (trace s')
         \<and> rtc_state (light_sleep_entry (call Serial_print s)) = rtc_state s
         \<and> rtc_state s' = rtc_state s))"
proof (intro conjI impI)
  assume "mode \<in> {POWER_MODE_DEEP_SLEEP, POWER_MODE_HIBERNATION} \<and> current_mode s \<noteq> mode"
  then consider "mode = POWER_MODE_DEEP_SLEEP" "current_mode s \<noteq> POWER_MODE_DEEP_SLEEP"
    | "mode = POWER_MODE_HIBERNATION" "current_mode s \<noteq> POWER_MODE_HIBERNATION"
    by auto
  then show "\<exists>s'. power_manager_set_mode env mode s = Suspended s'
         \<and> last (trace s') = Esp_deep_sleep_start
         \<and> checksum (rtc_state s') = calculate_checksum (rtc_state s')"
  proof cases
    case 1
    then show ?thesis
      by (simp add: set_mode_deep_sleep_suspends deep_sleep_entry_rtc deep_sleep_entry_last
          Let_def)
  next
    case 2
    then show ?thesis
      by (simp add: set_mode_hibernation_suspends hibernation_entry_rtc hibernation_entry_last)
  qed
next
  assume "current_mode s \<noteq> POWER_MODE_LIGHT_SLEEP"
  then show "\<exists>s'. power_manager_set_mode env POWER_MODE_LIGHT_SLEEP s = Returns True s'
         \<and> Esp_light_sleep_start \<in> set (trace s')
         \<and> rtc_state (light_sleep_entry (call Serial_print s)) = rtc_state s
         \<and> rtc_state s' = rtc_state s"
    by (simp add: set_mode_light_sleep_returns light_sleep_resume_rtc light_sleep_entry_rtc)
      (simp add: light_sleep_entry_def)
qed

theorem deep_suspension_commits_checksum_witness:
  "POWER_MODE_DEEP_SLEEP \<in> {POWER_MODE_DEEP_SLEEP, POWER_MODE_HIBERNATION}
   \<and> current_mode alert_state \<noteq> POWER_MODE_DEEP_SLEEP
   \<and> current_mode alert_state \<noteq> POWER_MODE_LIGHT_SLEEP
   \<and> is_suspended (power_manager_set_mode example_env POWER_MODE_DEEP_SLEEP alert_state)
   \<and> checksum (rtc_state (final_state
        (power_manager_set_mode example_env POWER_MODE_DEEP_SLEEP alert_state)))
      = calculate_checksum (rtc_state (final_state
        (power_manager_set_mode example_env POWER_MODE_DEEP_SLEEP alert_state)))
   \<and> is_suspended (power_manager_set_mode example_env POWER_MODE_HIBERNATION alert_state)
   \<and> checksum (rtc_state (final_state
        (power_manager_set_mode example_env POWER_MODE_HIBERNATION alert_state)))
      = calculate_checksum (rtc_state (final_state
        (power_manager_set_mode example_env POWER_MODE_HIBERNATION alert_state)))
   \<and> rtc_state (final_state
        (power_manager_set_mode example_env POWER_MODE_LIGHT_SLEEP alert_state))
      = rtc_state alert_state"
  using deep_suspension_commits_checksum
          [of POWER_MODE_DEEP_SLEEP alert_state example_env]
        deep_suspension_commits_checksum
          [of POWER_MODE_HIBERNATION alert_state example_env]
  by (auto simp: alert_state_fields)

text \<open>
  Claim C4 as the specification states it fails for \<open>LIGHT_SLEEP\<close>: after an alert has
  been recorded, the record sums to 1 while its stored checksum is still 0, and at the
  call of \<open>Esp_light_sleep_start\<close>, as after it, the stored checksum is still 0.
\<close>

theorem light_sleep_does_not_commit_counterexample:
  "current_mode alert_state \<noteq> POWER_MODE_LIGHT_SLEEP
   \<and> last (trace (light_sleep_entry (call Serial_print alert_state))) = Esp_light_sleep_start
   \<and> checksum (rtc_state (light_sleep_entry (call Serial_print alert_state))) = 0
   \<and> calculate_checksum (rtc_state (light_sleep_entry (call Serial_print alert_state))) = 1
   \<and> power_manager_set_mode example_env POWER_MODE_LIGHT_SLEEP alert_state
       = Returns True
           ((light_sleep_resume example_env (light_sleep_entry (call Serial_print alert_state)))
              \<lparr>current_mode := POWER_MODE_LIGHT_SLEEP\<rparr>)
   \<and> checksum (rtc_state (final_state
        (power_manager_set_mode example_env POWER_MODE_LIGHT_SLEEP alert_state)))
      \<noteq> calculate_checksum (rtc_state (final_state
        (power_manager_set_mode example_env POWER_MODE_LIGHT_SLEEP alert_state)))"
  by (simp add: set_mode_light_sleep_returns light_sleep_resume_rtc light_sleep_entry_rtc
      alert_state_fields calculate_checksum_examples)
    (simp add: rtc_zeroed_def)

text \<open>
  Claim C5. For every state, every source and every \<open>len\<close>: when the cursor plus
  \<open>len\<close> reaches or exceeds the capacity of 256 bytes,
  \<open>power_manager_buffer_telemetry\<close> returns false and the state, cursor and buffer
  contents included, is the one it was given; otherwise it returns true, the cursor has
  advanced by \<open>len\<close> without wrapping, the \<open>len\<close> bytes of the source stand in the
  buffer from the old cursor on, and every other byte of the buffer and every other part
  of the state is unchanged. From an empty buffer, appending 200 bytes succeeds and
  appending 60 more then fails and changes nothing.
\<close>

theorem buffer_telemetry_append:
  "(unat (buffer_index (rtc_state s)) + unat len \<ge> TELEMETRY_BUFFER_SIZE \<longrightarrow>
      power_manager_buffer_telemetry data len s = (False, s))
   \<and> (unat (buffer_index (rtc_state s)) + unat len < TELEMETRY_BUFFER_SIZE \<longrightarrow>
        (\<exists>buf'. power_manager_buffer_telemetry data len s =
                  (True, s\<lparr>rtc_state := (rtc_state s)
                             \<lparr>telemetry_buffer := buf',
                              buffer_index := buffer_index (rtc_state s) + len\<rparr>\<rparr>)
           \<and> unat (buffer_index (rtc_state s) + len)
               = unat (buffer_index (rtc_state s)) + unat len
           \<and> (\<forall>k. buf' k =
                 (if unat (buffer_index (rtc_state s)) \<le> unat k
                     \<and> unat k < unat (buffer_index (rtc_state s)) + unat len
                  then data (unat k - unat (buffer_index (rtc_state s)))
                  else telemetry_buffer (rtc_state s) k))))
   \<and> (buffer_index (rtc_state s) = 0 \<longrightarrow>
        fst (power_manager_buffer_telemetry data 200 s)
        \<and> power_manager_buffer_telemetry data2 60 (snd (power_manager_buffer_telemetry data 200 s))
            = (False, snd (power_manager_buffer_telemetry data 200 s)))"
proof (intro conjI impI)
  assume "unat (buffer_index (rtc_state s)) + unat len \<ge> TELEMETRY_BUFFER_SIZE"
  then show "power_manager_buffer_telemetry data len s = (False, s)"
    by (simp add: power_manager_buffer_telemetry_def)
next
  assume room: "unat (buffer_index (rtc_state s)) + unat len < TELEMETRY_BUFFER_SIZE"
  let ?idx = "unat (buffer_index (rtc_state s))"
  let ?buf' = "memcpy_at (telemetry_buffer (rtc_state s)) ?idx (map data [0 ..< unat len])"
  have bound: "?idx + length (map data [0 ..< unat len]) \<le> 256"
    using room by (simp add: TELEMETRY_BUFFER_SIZE_def)
  have res: "power_manager_buffer_telemetry data len s =
               (True, s\<lparr>rtc_state := (rtc_state s)
                          \<lparr>telemetry_buffer := ?buf',
                           buffer_index := buffer_index (rtc_state s) + len\<rparr>\<rparr>)"
    using room by (simp add: power_manager_buffer_telemetry_def Let_def)
  have cursor: "unat (buffer_index (rtc_state s) + len) = ?idx + unat len"
    using room by (simp add: unat_word_ariths TELEMETRY_BUFFER_SIZE_def)
  have contents: "?buf' k =
      (if ?idx \<le> unat k \<and> unat k < ?idx + unat len then data (unat k - ?idx)
       else telemetry_buffer (rtc_state s) k)" for k
    using memcpy_at_apply [OF bound, of "telemetry_buffer (rtc_state s)" k] by auto
  from res cursor contents
  show "\<exists>buf'. power_manager_buffer_telemetry data len s =
                  (True, s\<lparr>rtc_state := (rtc_state s)
                             \<lparr>telemetry_buffer := buf',
                              buffer_index := buffer_index (rtc_state s) + len\<rparr>\<rparr>)
           \<and> unat (buffer_index (rtc_state s) + len)
               = unat (buffer_index (rtc_state s)) + unat len
           \<and> (\<forall>k. buf' k =
                 (if unat (buffer_index (rtc_state s)) \<le> unat k
                     \<and> unat k < unat (buffer_index (rtc_state s)) + unat len
                  then data (unat k - unat (buffer_index (rtc_state s)))
                  else telemetry_buffer (rtc_state s) k))"
    by blast
next
  assume empty: "buffer_index (rtc_state s) = 0"
  then show "fst (power_manager_buffer_telemetry data 200 s)"
    by (simp add: power_manager_buffer_telemetry_def TELEMETRY_BUFFER_SIZE_def Let_def)
next
  assume empty: "buffer_index (rtc_state s) = 0"
  then show "power_manager_buffer_telemetry data2 60 (snd (power_manager_buffer_telemetry data 200 s))
            = (False, snd (power_manager_buffer_telemetry data 200 s))"
    by (simp add: power_manager_buffer_telemetry_def TELEMETRY_BUFFER_SIZE_def Let_def)
qed

theorem buffer_telemetry_append_witness:
  "buffer_index (rtc_state ready_state) = 0
   \<and> unat (buffer_index (rtc_state ready_state)) + unat (200 :: u8) < TELEMETRY_BUFFER_SIZE
   \<and> fst (power_manager_buffer_telemetry (\<lambda>k. 7) 200 ready_state)
   \<and> buffer_index (rtc_state (snd (power_manager_buffer_telemetry (\<lambda>k. 7) 200 ready_state))) = 200
   \<and> unat (200 :: u8) + unat (60 :: u8) \<ge> TELEMETRY_BUFFER_SIZE
   \<and> power_manager_buffer_telemetry (\<lambda>k. 9) 60
         (snd (power_manager_buffer_telemetry (\<lambda>k. 7) 200 ready_state))
       = (False, snd (power_manager_buffer_telemetry (\<lambda>k. 7) 200 ready_state))"
  using buffer_telemetry_append
          [where s = ready_state and len = 200 and data = "\<lambda>k. 7" and ?data2.0 = "\<lambda>k. 9"]
  by (auto simp: ready_state_fields rtc_zeroed_def TELEMETRY_BUFFER_SIZE_def)

text \<open>
  Claim C6. The checksum is the sum of the first 280 bytes of the record, the bytes
  before the checksum field: it does not depend on the stored checksum, so recomputing it
  after storing it gives the same value; the sum does not wrap; and overwriting any one
  of those 280 bytes with a different value changes the recomputed checksum, whether the
  changed memory is read as bytes or as a record \<open>r'\<close>.
\<close>

theorem checksum_detects_single_byte_mutation:
  "calculate_checksum (r\<lparr>checksum := c\<rparr>) = calculate_checksum r
   \<and> unat (calculate_checksum r) = sum_list (map unat (take CHECKSUM_OFFSET (rtc_bytes r)))
   \<and> (i < CHECKSUM_OFFSET \<and> v \<noteq> rtc_bytes r ! i \<longrightarrow>
        checksum_of_bytes ((rtc_bytes r)[i := v]) \<noteq> calculate_checksum r)
   \<and> (i < CHECKSUM_OFFSET \<and> v \<noteq> rtc_bytes r ! i \<and> rtc_bytes r' = (rtc_bytes r)[i := v] \<longrightarrow>
        calculate_checksum r' \<noteq> calculate_checksum r)"
proof -
  have mut: "checksum_of_bytes ((rtc_bytes r)[i := v]) \<noteq> checksum_of_bytes (rtc_bytes r)"
    if "i < CHECKSUM_OFFSET" and "v \<noteq> rtc_bytes r ! i"
  proof (rule checksum_of_bytes_mutation)
    show "i < CHECKSUM_OFFSET" by (fact that)
    show "i < length (rtc_bytes r)"
      using that(1) by (simp add: length_rtc_bytes CHECKSUM_OFFSET_def)
    show "v \<noteq> rtc_bytes r ! i" by (fact that)
  qed
  have stored: "calculate_checksum (r\<lparr>checksum := c\<rparr>) = calculate_checksum r"
    by simp
  have additive:
    "unat (calculate_checksum r) = sum_list (map unat (take CHECKSUM_OFFSET (rtc_bytes r)))"
    by (simp add: calculate_checksum_def unat_checksum_of_bytes)
  from stored additive mut show ?thesis
    by (auto simp: calculate_checksum_def)
qed

theorem checksum_detects_single_byte_mutation_witness:
  "(8 :: nat) < CHECKSUM_OFFSET \<and> (1 :: u8) \<noteq> rtc_bytes rtc_zeroed ! 8
   \<and> rtc_bytes (rtc_zeroed\<lparr>wake_count := 1\<rparr>) = (rtc_bytes rtc_zeroed)[8 := 1]
   \<and> calculate_checksum (rtc_zeroed\<lparr>wake_count := 1\<rparr>) \<noteq> calculate_checksum rtc_zeroed
   \<and> checksum_of_bytes ((rtc_bytes rtc_zeroed)[8 := 1]) \<noteq> calculate_checksum rtc_zeroed"
proof -
  have a: "(8 :: nat) < CHECKSUM_OFFSET"
    by (simp add: CHECKSUM_OFFSET_def)
  have b: "(1 :: u8) \<noteq> rtc_bytes rtc_zeroed ! 8"
    by (simp add: rtc_bytes_def rtc_zeroed_def le32_def)
  have c: "rtc_bytes (rtc_zeroed\<lparr>wake_count := 1\<rparr>) = (rtc_bytes rtc_zeroed)[8 := 1]"
    by (simp add: rtc_bytes_def rtc_zeroed_def le32_def)
  show ?thesis
    using a b c
      checksum_detects_single_byte_mutation
        [where r = rtc_zeroed and c = 0 and i = 8 and v = 1
           and r' = "rtc_zeroed\<lparr>wake_count := 1\<rparr>"]
    by simp
qed

text \<open>
  Claim C7. For every state and every \<open>pending\<close>, \<open>power_manager_set_alert\<close> returns;
  it stores \<open>pending\<close> in the record's flag and changes nothing else in the record, so
  \<open>power_manager_has_alert\<close> then returns \<open>pending\<close>; when \<open>pending\<close> is true and
  the current mode is \<open>LIGHT_SLEEP\<close>, \<open>DEEP_SLEEP\<close> or \<open>HIBERNATION\<close> (at least
  \<open>LIGHT_SLEEP\<close> in the enumeration order) it then calls \<open>power_manager_set_mode\<close>
  with \<open>ACTIVE\<close>: the entry actions of \<open>ACTIVE\<close> run (the transition is logged, the
  UART driver is reinstalled and, when modem sleep is enabled, WiFi power save is switched
  off) and the mode afterwards is \<open>ACTIVE\<close>. Otherwise no platform call is made and the
  mode is unchanged. The configuration, the last-activity time and \<open>initialized\<close> are
  unchanged in every case.
\<close>

theorem set_alert_stores_flag_and_wakes:
  "\<exists>s'. power_manager_set_alert env pending s = Returns () s'
     \<and> power_manager_has_alert s' = pending
     \<and> rtc_state s' = (rtc_state s)\<lparr>critical_alert_pending := (if pending then 1 else 0)\<rparr>
     \<and> (pending \<and> current_mode s \<in> {POWER_MODE_LIGHT_SLEEP, POWER_MODE_DEEP_SLEEP,
                                        POWER_MODE_HIBERNATION}
          \<longrightarrow> current_mode s' = POWER_MODE_ACTIVE)
     \<and> current_mode s' =
         (if pending \<and> power_mode_val (current_mode s) \<ge> power_mode_val POWER_MODE_LIGHT_SLEEP
          then POWER_MODE_ACTIVE else current_mode s)
     \<and> (pending \<and> current_mode s \<in> {POWER_MODE_LIGHT_SLEEP, POWER_MODE_DEEP_SLEEP,
                                        POWER_MODE_HIBERNATION}
          \<longrightarrow> Returns () s' =
                ignore_result
                  (power_manager_set_mode env POWER_MODE_ACTIVE
                     (s\<lparr>rtc_state := (rtc_state s)\<lparr>critical_alert_pending := 1\<rparr>\<rparr>)))
     \<and> trace s' = trace s @
          (if pending \<and> power_mode_val (current_mode s) \<ge> power_mode_val POWER_MODE_LIGHT_SLEEP
           then Serial_print # Uart_driver_install
                  # (if enable_wifi_modem_sleep (config s)
                     then [Esp_wifi_set_ps WIFI_PS_NONE] else [])
           else [])
     \<and> config s' = config s
     \<and> last_activity_time s' = last_activity_time s
     \<and> initialized s' = initialized s
     \<and> millis_calls s' = millis_calls s
     \<and> adc_reads s' = adc_reads s"
proof (cases "pending \<and> power_mode_val (current_mode s) \<ge> power_mode_val POWER_MODE_LIGHT_SLEEP")
  case True
  then have "current_mode s \<noteq> POWER_MODE_ACTIVE"
    by auto
  with True show ?thesis
    by (simp add: power_manager_set_alert_def power_manager_has_alert_def
        set_mode_active_returns)
next
  case False
  then show ?thesis
    by (cases "current_mode s")
      (auto simp: power_manager_set_alert_def power_manager_has_alert_def)
qed

theorem set_alert_stores_flag_and_wakes_witness:
  "current_mode (ready_state\<lparr>current_mode := POWER_MODE_LIGHT_SLEEP\<rparr>)
     \<in> {POWER_MODE_LIGHT_SLEEP, POWER_MODE_DEEP_SLEEP, POWER_MODE_HIBERNATION}
   \<and> power_manager_has_alert (final_state
        (power_manager_set_alert example_env True
           (ready_state\<lparr>current_mode := POWER_MODE_LIGHT_SLEEP\<rparr>)))
   \<and> current_mode (final_state
        (power_manager_set_alert example_env True
           (ready_state\<lparr>current_mode := POWER_MODE_LIGHT_SLEEP\<rparr>)))
       = POWER_MODE_ACTIVE
   \<and> trace (final_state
        (power_manager_set_alert example_env True
           (ready_state\<lparr>current_mode := POWER_MODE_LIGHT_SLEEP\<rparr>)))
       = trace ready_state @ [Serial_print, Uart_driver_install, Esp_wifi_set_ps WIFI_PS_NONE]
   \<and> power_manager_set_alert example_env True
           (ready_state\<lparr>current_mode := POWER_MODE_LIGHT_SLEEP\<rparr>)
       = ignore_result
           (power_manager_set_mode example_env POWER_MODE_ACTIVE
              (ready_state\<lparr>current_mode := POWER_MODE_LIGHT_SLEEP,
                            rtc_state := rtc_zeroed\<lparr>critical_alert_pending := 1\<rparr>\<rparr>))
   \<and> \<not> power_manager_has_alert (final_state
        (power_manager_set_alert example_env False
           (ready_state\<lparr>current_mode := POWER_MODE_LIGHT_SLEEP\<rparr>)))
   \<and> current_mode (final_state
        (power_manager_set_alert example_env False
           (ready_state\<lparr>current_mode := POWER_MODE_LIGHT_SLEEP\<rparr>)))
       = POWER_MODE_LIGHT_SLEEP
   \<and> trace (final_state
        (power_manager_set_alert example_env False
           (ready_state\<lparr>current_mode := POWER_MODE_LIGHT_SLEEP\<rparr>)))
       = trace ready_state"
proof -
  let ?s = "ready_state\<lparr>current_mode := POWER_MODE_LIGHT_SLEEP\<rparr>"
  have fields:
    "current_mode ?s = POWER_MODE_LIGHT_SLEEP"
    "enable_wifi_modem_sleep (config ?s)"
    "rtc_state ?s = rtc_zeroed"
    "trace ?s = trace ready_state"
    by (simp_all add: ready_state_fields default_config_def)
  obtain s1 where s1:
    "power_manager_set_alert example_env True ?s = Returns () s1"
    "power_manager_has_alert s1 = True"
    "current_mode s1 =
       (if True \<and> power_mode_val (current_mode ?s) \<ge> power_mode_val POWER_MODE_LIGHT_SLEEP
        then POWER_MODE_ACTIVE else current_mode ?s)"
    "True \<and> current_mode ?s \<in> {POWER_MODE_LIGHT_SLEEP, POWER_MODE_DEEP_SLEEP,
                                    POWER_MODE_HIBERNATION}
       \<longrightarrow> Returns () s1 =
             ignore_result
               (power_manager_set_mode example_env POWER_MODE_ACTIVE
                  (?s\<lparr>rtc_state := (rtc_state ?s)\<lparr>critical_alert_pending := 1\<rparr>\<rparr>))"
    "trace s1 = trace ?s @
       (if True \<and> power_mode_val (current_mode ?s) \<ge> power_mode_val POWER_MODE_LIGHT_SLEEP
        then Serial_print # Uart_driver_install
               # (if enable_wifi_modem_sleep (config ?s)
                  then [Esp_wifi_set_ps WIFI_PS_NONE] else [])
        else [])"
    using set_alert_stores_flag_and_wakes [of example_env True ?s] by blast
  obtain s2 where s2:
    "power_manager_set_alert example_env False ?s = Returns () s2"
    "power_manager_has_alert s2 = False"
    "current_mode s2 =
       (if False \<and> power_mode_val (current_mode ?s) \<ge> power_mode_val POWER_MODE_LIGHT_SLEEP
        then POWER_MODE_ACTIVE else current_mode ?s)"
    "trace s2 = trace ?s @
       (if False \<and> power_mode_val (current_mode ?s) \<ge> power_mode_val POWER_MODE_LIGHT_SLEEP
        then Serial_print # Uart_driver_install
               # (if enable_wifi_modem_sleep (config ?s)
                  then [Esp_wifi_set_ps WIFI_PS_NONE] else [])
        else [])"
    using set_alert_stores_flag_and_wakes [of example_env False ?s] by blast
  have call: "Returns () s1 =
      ignore_result
        (power_manager_set_mode example_env POWER_MODE_ACTIVE
           (ready_state\<lparr>current_mode := POWER_MODE_LIGHT_SLEEP,
                         rtc_state := rtc_zeroed\<lparr>critical_alert_pending := 1\<rparr>\<rparr>))"
    using s1(4) by (simp add: ready_state_fields)
  have t1: "trace s1 = trace ready_state
              @ [Serial_print, Uart_driver_install, Esp_wifi_set_ps WIFI_PS_NONE]"
    unfolding s1(5) by (simp add: ready_state_fields default_config_def)
  have t2: "trace s2 = trace ready_state"
    unfolding s2(4) by simp
  have m1: "current_mode s1 = POWER_MODE_ACTIVE"
    unfolding s1(3) by simp
  have m2: "current_mode s2 = POWER_MODE_LIGHT_SLEEP"
    unfolding s2(3) by simp
  show ?thesis
    unfolding s1(1) s2(1) final_state.simps
    using s1(2) s2(2) t1 t2 m1 m2 call fields(1) by simp
qed

text \<open>
  Claim C8. For every state, \<open>power_manager_activity\<close> returns with the clock's reading
  as the last-activity time and with the current mode \<open>ACTIVE\<close>; when the mode was not
  \<open>ACTIVE\<close> the entry actions of \<open>ACTIVE\<close> have run, and otherwise no platform call
  is made. The retained record is unchanged.
\<close>

theorem activity_forces_active:
  "\<exists>s'. power_manager_activity env s = Returns () s'
     \<and> current_mode s' = POWER_MODE_ACTIVE
     \<and> last_activity_time s' = millis_seq env (millis_calls s)
     \<and> rtc_state s' = rtc_state s
     \<and> trace s' = trace s @
          (if current_mode s = POWER_MODE_ACTIVE then []
           else Serial_print # Uart_driver_install
                  # (if enable_wifi_modem_sleep (config s)
                     then [Esp_wifi_set_ps WIFI_PS_NONE] else []))"
proof (cases "current_mode s = POWER_MODE_ACTIVE")
  case True
  then show ?thesis
    by (simp add: power_manager_activity_def millis_def)
next
  case False
  then show ?thesis
    by (simp add: power_manager_activity_def millis_def set_mode_active_returns)
qed

theorem activity_forces_active_witness:
  "current_mode (ready_state\<lparr>current_mode := POWER_MODE_LIGHT_SLEEP\<rparr>) \<noteq> POWER_MODE_ACTIVE
   \<and> \<not> is_suspended
         (power_manager_activity example_env (ready_state\<lparr>current_mode := POWER_MODE_LIGHT_SLEEP\<rparr>))
   \<and> current_mode (final_state
         (power_manager_activity example_env (ready_state\<lparr>current_mode := POWER_MODE_LIGHT_SLEEP\<rparr>)))
       = POWER_MODE_ACTIVE
   \<and> last_activity_time (final_state
         (power_manager_activity example_env (ready_state\<lparr>current_mode := POWER_MODE_LIGHT_SLEEP\<rparr>)))
       = 400000"
  using activity_forces_active
          [of example_env "ready_state\<lparr>current_mode := POWER_MODE_LIGHT_SLEEP\<rparr>"]
  by (auto simp: ready_state_fields example_env_def)

text \<open>
  Claim C9. For every mode \<open>X\<close>, \<open>power_manager_set_mode\<close> called with \<open>X\<close> while the
  current mode is \<open>X\<close> returns true and the state it was given: no platform call is
  made, and the current mode, the retained record and every other variable are unchanged.
\<close>

theorem set_mode_same_mode_is_noop:
  "current_mode s = X \<Longrightarrow> power_manager_set_mode env X s = Returns True s"
  by (simp add: power_manager_set_mode_def)

theorem set_mode_same_mode_is_noop_witness:
  "current_mode ready_state = POWER_MODE_ACTIVE
   \<and> power_manager_set_mode example_env POWER_MODE_ACTIVE ready_state = Returns True ready_state
   \<and> current_mode (ready_state\<lparr>current_mode := POWER_MODE_HIBERNATION\<rparr>) = POWER_MODE_HIBERNATION
   \<and> power_manager_set_mode example_env POWER_MODE_HIBERNATION
         (ready_state\<lparr>current_mode := POWER_MODE_HIBERNATION\<rparr>)
       = Returns True (ready_state\<lparr>current_mode := POWER_MODE_HIBERNATION\<rparr>)"
  using set_mode_same_mode_is_noop [of ready_state POWER_MODE_ACTIVE example_env]
    set_mode_same_mode_is_noop
      [of "ready_state\<lparr>current_mode := POWER_MODE_HIBERNATION\<rparr>" POWER_MODE_HIBERNATION
          example_env]
  by (simp add: ready_state_fields)

text \<open>
  Claim C10. While \<open>initialized\<close> is false, \<open>power_manager_process\<close> returns at once
  with the state it was given: the clock and the battery are not read, no transition is
  attempted, and the current mode, the retained record and the last-activity time are
  unchanged.
\<close>

theorem process_before_init_is_noop:
  "\<not> initialized s \<Longrightarrow> power_manager_process env s = Returns () s"
  by (simp add: power_manager_process_def)

theorem process_before_init_is_noop_witness:
  "\<not> initialized (boot_state rtc_zeroed)
   \<and> power_manager_process example_env (boot_state rtc_zeroed)
       = Returns () (boot_state rtc_zeroed)"
  using process_before_init_is_noop [of "boot_state rtc_zeroed" example_env]
  by (simp add: boot_state_def)

end
